theory Spec2Isabelle
  imports Main "HOL-Library.AList"
begin

section \<open>The template harvesting script \<^verbatim>\<open>scripts/harvest_template.py\<close>\<close>

text \<open>
  The script walks over wiki pages, reads the parameters of one template and adds a claim
  to the page's Wikidata item for every parameter that is mapped to a property. Everything
  it does to the outside world goes through the pywikibot library: the model keeps the
  library's answers in a record \<open>env\<close> of functions, and records every call the script
  makes, in order, in the \<open>trace\<close> of the state.
\<close>

subsection \<open>Data\<close>

text \<open>\<^verbatim>\<open>pywikibot.Site()\<close> is the configured default site, \<^verbatim>\<open>pywikibot.Site(code, fam)\<close> a
  named one.\<close>

datatype site = DefaultSite | Site string string

text \<open>\<^verbatim>\<open>pywikibot.Link(text, source, defaultNamespace)\<close>; the source defaults to the default
  site and the namespace to 0.\<close>

datatype link = Link string site nat

text \<open>\<^verbatim>\<open>pywikibot.Page(link)\<close>, \<^verbatim>\<open>pywikibot.FilePage(link)\<close> and
  \<^verbatim>\<open>pywikibot.FilePage(page)\<close>.\<close>

datatype page = Page link | FilePage link | FilePageOf page

text \<open>An item of the repository, known by its title (\<^verbatim>\<open>item.title()\<close>, as in Q42).\<close>

datatype item = ItemPage (title: string)

text \<open>What \<^verbatim>\<open>claim.setTarget\<close> receives: an item, a string, the \<open>url\<close> group of a match, or
  a file page.\<close>

datatype target = TItem item | TString string | TUrl string | TFile page

text \<open>\<^verbatim>\<open>pywikibot.Claim(repo, pid)\<close> after \<^verbatim>\<open>setTarget\<close>; \<open>getID\<close> is the property
  identifier the claim was made with.\<close>

datatype claim = Claim (getID: string) target

datatype error = KeyboardInterrupt | ValueError | IndexError

text \<open>The texts handed to \<^verbatim>\<open>pywikibot.output\<close> and \<^verbatim>\<open>pywikibot.error\<close>, one constructor
  per format string of the script, with the values that fill it.\<close>

datatype message =
    HasAllClaims string string
  | FailedParsingTemplate string
  | ClaimAlreadyExists string
  | DoesNotExist page
  | NoWikidataItem page
  | LinksToItself page
  | FileDoesNotExist page
  | UnsupportedDatatype string

text \<open>The calls into the library, as they appear in the script.\<close>

datatype event =
    SetCurrentPage string
  | ItemGet item
  | Output message
  | TemplateTitle site string
  | ClaimType string
  | LinkRegexSearch string
  | LinkRSearch string
  | Exists page
  | IsRedirectPage page
  | GetRedirectTarget page
  | FromPage page
  | ItemExists item
  | UserAddClaim item claim site

text \<open>
  The answers of the library. \<open>link_regex_search v\<close> is group 1 of
  \<^verbatim>\<open>pywikibot.link_regex.search(v)\<close> and \<open>linkR_search v\<close> the group \<open>url\<close> of
  \<^verbatim>\<open>textlib.compileLinkR().search(v)\<close>, \<open>None\<close> when there is no match.
  \<open>title_ns10 s t\<close> is \<^verbatim>\<open>pywikibot.Page(s, t, ns=10).title(withNamespace=False)\<close>, \<open>None\<close>
  when it raises \<^verbatim>\<open>InvalidTitle\<close>. \<open>fromPage p\<close> is \<^verbatim>\<open>pywikibot.ItemPage.fromPage(p)\<close>,
  \<open>None\<close> when it raises \<^verbatim>\<open>NoPage\<close>. \<open>claim_type pid\<close> is the \<^verbatim>\<open>type\<close> of a claim for
  property \<open>pid\<close>. \<open>user_add_claim i c s ks\<close> is the set of property identifiers that have
  claims on item \<open>i\<close> after \<^verbatim>\<open>user_add_claim(i, c, s)\<close>, when it was \<open>ks\<close> before.
\<close>

record env =
  link_regex_search :: "string \<Rightarrow> string option"
  linkR_search :: "string \<Rightarrow> string option"
  title_ns10 :: "site \<Rightarrow> string \<Rightarrow> string option"
  page_exists :: "page \<Rightarrow> bool"
  isRedirectPage :: "page \<Rightarrow> bool"
  getRedirectTarget :: "page \<Rightarrow> page"
  fromPage :: "page \<Rightarrow> item option"
  item_exists :: "item \<Rightarrow> bool"
  claim_type :: "string \<Rightarrow> string"
  user_add_claim :: "item \<Rightarrow> claim \<Rightarrow> site \<Rightarrow> string set \<Rightarrow> string set"

text \<open>The attributes of \<^verbatim>\<open>HarvestRobot\<close> that \<^verbatim>\<open>treat\<close> reads: the template's names and the
  dictionary from parameter names to property identifiers. A dictionary is the list of its
  items, each key once: \<open>map_of\<close> looks a key up and \<open>map snd\<close> gives the values.\<close>

record bot =
  templateTitles :: "string list"
  bot_fields :: "(string \<times> string) list"

text \<open>A page of the generator: its title, its site and \<^verbatim>\<open>page.raw_extracted_templates\<close>, a
  list of template names with their parameters (the items of the parameter dictionary).\<close>

record src_page =
  page_title :: string
  site_of :: site
  raw_extracted_templates :: "(string \<times> (string \<times> string) list) list"

text \<open>
  The state of the run: the global \<^verbatim>\<open>willstop\<close>, the lines written by \<^verbatim>\<open>print\<close>, the keys
  of \<^verbatim>\<open>item.claims\<close> for every item, and the calls made so far. \<open>signals\<close> is the
  environment's part: the number of SIGINTs that arrive just before each coming iteration
  of the loops of \<^verbatim>\<open>treat\<close>, the next iteration first.
\<close>

record state =
  willstop :: bool
  stdout :: "string list"
  claims :: "item \<Rightarrow> string set"
  trace :: "event list"
  signals :: "nat list"

type_synonym result = "(error \<times> state) + state"

subsection \<open>Strings\<close>

text \<open>\<^verbatim>\<open>str.strip()\<close>: the white space of Python among the code points below 256.\<close>

definition is_space :: "char \<Rightarrow> bool" where
  "is_space c = (of_char c \<in> {9, 10, 11, 12, 13, 28, 29, 30, 31, 32, 133, 160 :: nat})"

definition strip :: "string \<Rightarrow> string" where
  "strip s = rev (dropWhile is_space (rev (dropWhile is_space s)))"

subsection \<open>The signal handler\<close>

definition ctrl_c_text :: string where
  "ctrl_c_text = ''Received ctrl-c. Finishing current item; press ctrl-c again to abort.''"

definition signal_handler :: "state \<Rightarrow> result" where
  "signal_handler st =
     (if \<not> willstop st
      then Inr (st\<lparr>willstop := True, stdout := stdout st @ [ctrl_c_text]\<rparr>)
      else Inl (KeyboardInterrupt, st))"

text \<open>\<open>n\<close> SIGINTs in a row: the handler runs for each, and its exception ends the run.\<close>

fun sigints :: "nat \<Rightarrow> state \<Rightarrow> result" where
  "sigints 0 st = Inr st"
| "sigints (Suc n) st =
     (case signal_handler st of Inl e \<Rightarrow> Inl e | Inr st' \<Rightarrow> sigints n st')"

text \<open>The start of an iteration: the signals that are due arrive.\<close>

definition deliver :: "state \<Rightarrow> result" where
  "deliver st =
     (case signals st of
        [] \<Rightarrow> Inr st
      | n # ns \<Rightarrow> sigints n (st\<lparr>signals := ns\<rparr>))"

subsection \<open>\<^verbatim>\<open>HarvestRobot._template_link_target\<close>\<close>

definition emit :: "event \<Rightarrow> state \<Rightarrow> state" where
  "emit e st = st\<lparr>trace := trace st @ [e]\<rparr>"

definition template_link_target :: "env \<Rightarrow> item \<Rightarrow> string \<Rightarrow> state \<Rightarrow> item option \<times> state" where
  "template_link_target w item link_text st =
     (let link = Link link_text DefaultSite 0;
          linked_page = Page link;
          st1 = emit (Exists linked_page) st
      in if \<not> page_exists w linked_page
         then (None, emit (Output (DoesNotExist linked_page)) st1)
         else
           let st2 = emit (IsRedirectPage linked_page) st1;
               linked_page' = (if isRedirectPage w linked_page
                               then getRedirectTarget w linked_page else linked_page);
               st3 = (if isRedirectPage w linked_page
                      then emit (GetRedirectTarget linked_page) st2 else st2);
               st4 = emit (FromPage linked_page') st3
           in case fromPage w linked_page' of
                None \<Rightarrow> (None, emit (Output (NoWikidataItem linked_page')) st4)
              | Some linked_item \<Rightarrow>
                  let st5 = emit (ItemExists linked_item) st4
                  in if \<not> item_exists w linked_item
                     then (None, emit (Output (NoWikidataItem linked_page')) st5)
                     else if title linked_item = title item
                     then (None, emit (Output (LinksToItself linked_page')) st5)
                     else (Some linked_item, st5))"

subsection \<open>\<^verbatim>\<open>HarvestRobot.treat\<close>\<close>

text \<open>Line 217, \<^verbatim>\<open>self.user_add_claim(item, claim, page.site)\<close>.\<close>

definition add_claim :: "env \<Rightarrow> src_page \<Rightarrow> item \<Rightarrow> claim \<Rightarrow> state \<Rightarrow> state" where
  "add_claim w page item c st =
     (emit (UserAddClaim item c (site_of page)) st)
       \<lparr>claims := (claims st)(item := user_add_claim w item c (site_of page) (claims st item))\<rparr>"

text \<open>Lines 173 to 217: the branch for a property that has no claim yet.\<close>

definition commonssite :: site where
  "commonssite = Site ''commons'' ''commons''"

definition harvest_value :: "env \<Rightarrow> src_page \<Rightarrow> item \<Rightarrow> string \<Rightarrow> string \<Rightarrow> state \<Rightarrow> state" where
  "harvest_value w page item pid val st =
     (let st1 = emit (ClaimType pid) st;
          ty = claim_type w pid
      in if ty = ''wikibase-item'' then
           let st2 = emit (LinkRegexSearch val) st1;
               link_text = (case link_regex_search w val of Some t \<Rightarrow> t | None \<Rightarrow> val)
           in case template_link_target w item link_text st2 of
                (None, st3) \<Rightarrow> st3
              | (Some linked_item, st3) \<Rightarrow> add_claim w page item (Claim pid (TItem linked_item)) st3
         else if ty = ''string'' \<or> ty = ''external-id'' then
           add_claim w page item (Claim pid (TString (strip val))) st1
         else if ty = ''url'' then
           let st2 = emit (LinkRSearch val) st1
           in case linkR_search w val of
                None \<Rightarrow> st2
              | Some url \<Rightarrow> add_claim w page item (Claim pid (TUrl url)) st2
         else if ty = ''commonsMedia'' then
           let imagelink = Link val commonssite 6;
               image = FilePage imagelink;
               st2 = emit (IsRedirectPage image) st1;
               image' = (if isRedirectPage w image
                         then FilePageOf (getRedirectTarget w image) else image);
               st3 = (if isRedirectPage w image
                      then emit (GetRedirectTarget image) st2 else st2);
               st4 = emit (Exists image') st3
           in if \<not> page_exists w image'
              then emit (Output (FileDoesNotExist image')) st4
              else add_claim w page item (Claim pid (TFile image')) st4
         else emit (Output (UnsupportedDatatype ty)) st1)"

text \<open>Lines 156 to 217: the body of the loop over the parameters of a template.\<close>

definition treat_field :: "env \<Rightarrow> bot \<Rightarrow> src_page \<Rightarrow> item \<Rightarrow> string \<times> string \<Rightarrow> state \<Rightarrow> state" where
  "treat_field w b page item fv st =
     (let field = strip (fst fv);
          val = strip (snd fv)
      in if field = [] \<or> val = [] then st
         else case map_of (bot_fields b) field of
                None \<Rightarrow> st
              | Some pid \<Rightarrow>
                  let st1 = emit (ItemGet item) st
                  in if pid \<in> claims st1 item
                     then emit (Output (ClaimAlreadyExists pid)) st1
                     else harvest_value w page item pid val st1)"

fun fields_loop :: "env \<Rightarrow> bot \<Rightarrow> src_page \<Rightarrow> item \<Rightarrow> (string \<times> string) list \<Rightarrow> state \<Rightarrow> result" where
  "fields_loop w b page item [] st = Inr st"
| "fields_loop w b page item (fv # rest) st =
     (case deliver st of
        Inl e \<Rightarrow> Inl e
      | Inr st1 \<Rightarrow> fields_loop w b page item rest (treat_field w b page item fv st1))"

text \<open>Lines 144 to 217: the body of the loop over the templates of the page.\<close>

definition treat_template ::
  "env \<Rightarrow> bot \<Rightarrow> src_page \<Rightarrow> item \<Rightarrow> string \<times> (string \<times> string) list \<Rightarrow> state \<Rightarrow> result" where
  "treat_template w b page item tf st =
     (let st1 = emit (TemplateTitle (site_of page) (fst tf)) st
      in case title_ns10 w (site_of page) (fst tf) of
           None \<Rightarrow> Inr (emit (Output (FailedParsingTemplate (fst tf))) st1)
         | Some template \<Rightarrow>
             if template \<in> set (templateTitles b)
             then fields_loop w b page item (snd tf) st1
             else Inr st1)"

fun templates_loop ::
  "env \<Rightarrow> bot \<Rightarrow> src_page \<Rightarrow> item \<Rightarrow> (string \<times> (string \<times> string) list) list \<Rightarrow> state \<Rightarrow> result" where
  "templates_loop w b page item [] st = Inr st"
| "templates_loop w b page item (tf # rest) st =
     (case deliver st of
        Inl e \<Rightarrow> Inl e
      | Inr st1 \<Rightarrow>
          (case treat_template w b page item tf st1 of
             Inl e \<Rightarrow> Inl e
           | Inr st2 \<Rightarrow> templates_loop w b page item rest st2))"

definition treat :: "env \<Rightarrow> bot \<Rightarrow> src_page \<Rightarrow> item \<Rightarrow> state \<Rightarrow> result" where
  "treat w b page item st =
     (if willstop st then Inl (KeyboardInterrupt, st)
      else
        let st1 = emit (ItemGet item) (emit (SetCurrentPage (page_title page)) st)
        in if set (map snd (bot_fields b)) \<subseteq> claims st1 item
           then Inr (emit (Output (HasAllClaims (page_title page) (title item))) st1)
           else templates_loop w b page item (raw_extracted_templates page) st1)"

text \<open>The calls of \<^verbatim>\<open>user_add_claim\<close> in a trace, in order.\<close>

fun writes :: "event list \<Rightarrow> (item \<times> claim \<times> site) list" where
  "writes [] = []"
| "writes (UserAddClaim i c s # es) = (i, c, s) # writes es"
| "writes (_ # es) = writes es"

text \<open>The calls that look at a template or parse and resolve a value: everything but the
  page header, the load of the item, the messages and the writes.\<close>

fun is_parse :: "event \<Rightarrow> bool" where
  "is_parse (SetCurrentPage _) = False"
| "is_parse (ItemGet _) = False"
| "is_parse (Output _) = False"
| "is_parse (UserAddClaim _ _ _) = False"
| "is_parse _ = True"

text \<open>The state in which a call returned or raised.\<close>

fun final :: "result \<Rightarrow> state" where
  "final (Inl (e, st)) = st"
| "final (Inr st) = st"

subsection \<open>\<^verbatim>\<open>main\<close>\<close>

text \<open>
  \<^verbatim>\<open>main\<close> works on the arguments that \<^verbatim>\<open>pywikibot.handle_args\<close> leaves. Of the library it
  needs: whether \<^verbatim>\<open>gen.handleArg(arg)\<close> accepts an argument, the answer typed at
  \<^verbatim>\<open>pywikibot.input\<close>, and whether \<^verbatim>\<open>gen.getCombinedGenerator\<close> yields a generator for the
  arguments the factory has accepted.
\<close>

record menv =
  handleArg :: "string \<Rightarrow> bool"
  input_answer :: string
  getCombinedGenerator :: "string list \<Rightarrow> bool"

datatype main_event = Input | HandleArg string | ErrorMessage | GetCombinedGenerator

text \<open>How \<^verbatim>\<open>main\<close> ends: it returns after the error message about the missing template, it
  raises, or it builds the robot with a template title and the fields and runs it.\<close>

datatype main_outcome =
    NoTemplate
  | Raised error
  | BotRun string "(string \<times> string) list"

record main_result =
  main_events :: "main_event list"
  main_outcome :: main_outcome

text \<open>The local variables of the loop over the arguments (lines 236 to 247).\<close>

record main_vars =
  template_title :: string
  commandline_arguments :: "string list"
  gen_args :: "string list"
  seen :: "main_event list"

definition arg_step :: "menv \<Rightarrow> main_vars \<Rightarrow> string \<Rightarrow> main_vars" where
  "arg_step m v arg =
     (if take 9 arg = ''-template'' then
        (if length arg = 9
         then v\<lparr>template_title := input_answer m, seen := seen v @ [Input]\<rparr>
         else v\<lparr>template_title := drop 10 arg\<rparr>)
      else if handleArg m arg then
        (if take 13 arg = ''-transcludes:''
         then v\<lparr>template_title := drop 13 arg, gen_args := gen_args v @ [arg],
                seen := seen v @ [HandleArg arg]\<rparr>
         else v\<lparr>gen_args := gen_args v @ [arg], seen := seen v @ [HandleArg arg]\<rparr>)
      else v\<lparr>commandline_arguments := commandline_arguments v @ [arg],
             seen := seen v @ [HandleArg arg]\<rparr>)"

definition parse_args :: "menv \<Rightarrow> string list \<Rightarrow> main_vars" where
  "parse_args m local_args =
     foldl (arg_step m)
       \<lparr>template_title = [], commandline_arguments = [], gen_args = [], seen = []\<rparr> local_args"

text \<open>Lines 256 to 259: \<^verbatim>\<open>fields[args[i]] = args[i + 1]\<close> for every even \<open>i\<close>; the index
  \<open>i + 1\<close> is out of range when one argument is left over.\<close>

fun build_fields ::
  "string list \<Rightarrow> (string \<times> string) list \<Rightarrow> error + (string \<times> string) list" where
  "build_fields [] fs = Inr fs"
| "build_fields [k] fs = Inl IndexError"
| "build_fields (k # p # rest) fs = build_fields rest (AList.update k p fs)"

definition main :: "menv \<Rightarrow> string list \<Rightarrow> main_result" where
  "main m local_args =
     (let v = parse_args m local_args
      in if template_title v = []
         then \<lparr>main_events = seen v @ [ErrorMessage], main_outcome = NoTemplate\<rparr>
         else if odd (length (commandline_arguments v))
         then \<lparr>main_events = seen v, main_outcome = Raised ValueError\<rparr>
         else
           case build_fields (commandline_arguments v) [] of
             Inl e \<Rightarrow> \<lparr>main_events = seen v, main_outcome = Raised e\<rparr>
           | Inr fs \<Rightarrow>
               \<lparr>main_events = seen v @
                   (if getCombinedGenerator m (gen_args v) then [GetCombinedGenerator]
                    else [GetCombinedGenerator,
                          HandleArg (''-transcludes:'' @ template_title v),
                          GetCombinedGenerator]),
                 main_outcome = BotRun (template_title v) fs\<rparr>)"

text \<open>The consecutive pairs of a list, and the fields the robot was built with (none when no
  robot was built).\<close>

fun pairs :: "string list \<Rightarrow> (string \<times> string) list" where
  "pairs (k # p # rest) = (k, p) # pairs rest"
| "pairs _ = []"

fun robot_fields :: "main_outcome \<Rightarrow> (string \<times> string) list" where
  "robot_fields (BotRun t fs) = fs"
| "robot_fields _ = []"

subsection \<open>A small wiki to run the script on\<close>

text \<open>
  Modelled from the spec: the pattern \<^verbatim>\<open>pywikibot.link_regex\<close>, which is not part of the
  script. The first wiki link \<^verbatim>\<open>[[Target]]\<close> or \<^verbatim>\<open>[[Target|label]]\<close> of the value gives the
  target.
\<close>

fun link_regex_spec :: "string \<Rightarrow> string option" where
  "link_regex_spec [] = None"
| "link_regex_spec (c # cs) =
     (if c = CHR ''['' \<and> take 1 cs = ''[''
         \<and> take 2 (dropWhile (\<lambda>x. x \<noteq> CHR '']'') (drop 1 cs)) = '']]''
      then Some (takeWhile (\<lambda>x. x \<noteq> CHR '']'' \<and> x \<noteq> CHR ''|'') (drop 1 cs))
      else link_regex_spec cs)"

text \<open>
  Modelled from the spec: the pattern of \<^verbatim>\<open>textlib.compileLinkR()\<close>, which is not part of the
  script. The first external link \<^verbatim>\<open>[http://... label]\<close> of the value gives the URL, up to
  the blank or the bracket.
\<close>

fun linkR_spec :: "string \<Rightarrow> string option" where
  "linkR_spec [] = None"
| "linkR_spec (c # cs) =
     (if c = CHR ''['' \<and> (take 7 cs = ''http://'' \<or> take 8 cs = ''https://'')
      then Some (takeWhile (\<lambda>x. x \<noteq> CHR '' '' \<and> x \<noteq> CHR '']'') cs)
      else linkR_spec cs)"

definition example_env :: env where
  "example_env =
     \<lparr>link_regex_search = link_regex_spec,
      linkR_search = linkR_spec,
      title_ns10 = (\<lambda>s t. if CHR ''['' \<in> set t then None else Some t),
      page_exists = (\<lambda>p. p \<in> {Page (Link ''Actinopterygii'' DefaultSite 0),
                              Page (Link ''Ray-finned fish'' DefaultSite 0),
                              Page (Link ''Sisoridae'' DefaultSite 0),
                              FilePage (Link ''Old.jpg'' commonssite 6),
                              FilePageOf (Page (Link ''File:Fish.jpg'' commonssite 0))}),
      isRedirectPage = (\<lambda>p. p \<in> {Page (Link ''Ray-finned fish'' DefaultSite 0),
                                 FilePage (Link ''Old.jpg'' commonssite 6)}),
      getRedirectTarget = (\<lambda>p. if p = Page (Link ''Ray-finned fish'' DefaultSite 0)
                               then Page (Link ''Actinopterygii'' DefaultSite 0)
                               else Page (Link ''File:Fish.jpg'' commonssite 0)),
      fromPage = (\<lambda>p. if p = Page (Link ''Actinopterygii'' DefaultSite 0)
                      then Some (ItemPage ''Q127282'')
                      else if p = Page (Link ''Sisoridae'' DefaultSite 0)
                      then Some (ItemPage ''Q1'')
                      else None),
      item_exists = (\<lambda>i. True),
      claim_type = (\<lambda>pid. if pid = ''P70'' \<or> pid = ''P71'' then ''wikibase-item''
                           else if pid = ''P225'' then ''string''
                           else if pid = ''P856'' then ''url''
                           else if pid = ''P18'' then ''commonsMedia''
                           else ''globe-coordinate''),
      user_add_claim = (\<lambda>i c s ks. insert (getID c) ks)\<rparr>"

definition example_bot :: bot where
  "example_bot =
     \<lparr>templateTitles = [''Taxobox''],
      bot_fields = [(''orde'', ''P70''), (''familie'', ''P71''), (''naam'', ''P225''),
                    (''website'', ''P856''), (''afbeelding'', ''P18''),
                    (''plaats'', ''P625'')]\<rparr>"

definition example_page :: src_page where
  "example_page =
     \<lparr>page_title = ''Sisoridae'',
      site_of = Site ''nl'' ''wikipedia'',
      raw_extracted_templates =
        [(''Taxobox'', [(''orde'', ''[[Actinopterygii]]''), (''familie'', ''xyz-not-a-page'')])]\<rparr>"

definition example_item :: item where
  "example_item = ItemPage ''Q1''"

definition example_state :: state where
  "example_state =
     \<lparr>willstop = False, stdout = [], claims = (\<lambda>i. {}), trace = [], signals = []\<rparr>"

definition example_menv :: menv where
  "example_menv =
     \<lparr>handleArg = (\<lambda>a. take 1 a = ''-''), input_answer = ''Taxobox'',
      getCombinedGenerator = (\<lambda>args. args \<noteq> [])\<rparr>"

text \<open>An item that has claims for all the properties of the example robot.\<close>

definition full_claims :: "string set" where
  "full_claims = {''P70'', ''P71'', ''P225'', ''P856'', ''P18'', ''P625''}"

text \<open>The trace of \<^verbatim>\<open>treat\<close> on the example page, from the example state.\<close>

definition example_trace :: "event list" where
  "example_trace =
     [SetCurrentPage ''Sisoridae'', ItemGet (ItemPage ''Q1''),
      TemplateTitle (Site ''nl'' ''wikipedia'') ''Taxobox'',
      ItemGet (ItemPage ''Q1''), ClaimType ''P70'',
      LinkRegexSearch ''[[Actinopterygii]]'',
      Exists (Page (Link ''Actinopterygii'' DefaultSite 0)),
      IsRedirectPage (Page (Link ''Actinopterygii'' DefaultSite 0)),
      FromPage (Page (Link ''Actinopterygii'' DefaultSite 0)),
      ItemExists (ItemPage ''Q127282''),
      UserAddClaim (ItemPage ''Q1'') (Claim ''P70'' (TItem (ItemPage ''Q127282'')))
        (Site ''nl'' ''wikipedia''),
      ItemGet (ItemPage ''Q1''), ClaimType ''P71'',
      LinkRegexSearch ''xyz-not-a-page'',
      Exists (Page (Link ''xyz-not-a-page'' DefaultSite 0)),
      Output (DoesNotExist (Page (Link ''xyz-not-a-page'' DefaultSite 0)))]"

subsection \<open>The state without its signal part\<close>

text \<open>
  \<open>set_control\<close> overwrites the parts of the state that belong to the signal handling:
  the flag, the printed lines and the signals to come; \<open>core\<close> blanks them. A state is
  \<open>calm\<close> when at most one SIGINT is still to come and none when the flag is set, so that
  the handler will not raise; \<open>follows st st'\<close> says that \<open>st'\<close> is calm, has consumed some
  of the signals of \<open>st\<close>, and has the flag set exactly when \<open>st\<close> had it or a signal was
  consumed.
\<close>

definition set_control :: "bool \<Rightarrow> string list \<Rightarrow> nat list \<Rightarrow> state \<Rightarrow> state" where
  "set_control x y z st = st\<lparr>willstop := x, stdout := y, signals := z\<rparr>"

definition core :: "state \<Rightarrow> state" where
  "core st = set_control False [] [] st"

definition calm :: "state \<Rightarrow> bool" where
  "calm st = (sum_list (signals st) \<le> 1 \<and> (willstop st \<longrightarrow> sum_list (signals st) = 0))"

definition follows :: "state \<Rightarrow> state \<Rightarrow> bool" where
  "follows st st' =
     (calm st' \<and> sum_list (signals st') \<le> sum_list (signals st)
      \<and> willstop st' = (willstop st \<or> sum_list (signals st') < sum_list (signals st)))"

section \<open>Properties\<close>

subsection \<open>Auxiliary facts\<close>

lemma writes_append: "writes (xs @ ys) = writes xs @ writes ys"
  by (induction xs rule: writes.induct) simp_all

subsection \<open>The guards of \<^verbatim>\<open>treat\<close>\<close>

text \<open>
  C1. When the item already has a claim for every configured property, \<^verbatim>\<open>treat\<close> is over
  before it looks at a template: apart from the abort on \<^verbatim>\<open>willstop\<close>, it sets the current
  page, loads the item and prints one message. No template is examined, no value is parsed
  or resolved, the claims of the items stay as they are and \<^verbatim>\<open>user_add_claim\<close> is not called.
\<close>

theorem whole_entity_short_circuit:
  assumes "set (map snd (bot_fields b)) \<subseteq> claims st item"
  shows "treat w b page item st =
           (if willstop st then Inl (KeyboardInterrupt, st)
            else Inr (st\<lparr>trace := trace st @
                   [SetCurrentPage (page_title page), ItemGet item,
                    Output (HasAllClaims (page_title page) (title item))]\<rparr>))
       \<and> claims (final (treat w b page item st)) = claims st
       \<and> writes (trace (final (treat w b page item st))) = writes (trace st)
       \<and> filter is_parse (trace (final (treat w b page item st))) = filter is_parse (trace st)"
  using assms by (simp add: treat_def emit_def Let_def writes_append)

theorem whole_entity_short_circuit_witness:
  "set (map snd (bot_fields example_bot))
     \<subseteq> claims (example_state\<lparr>claims := (\<lambda>i. full_claims)\<rparr>) example_item
   \<and> treat example_env example_bot example_page example_item
        (example_state\<lparr>claims := (\<lambda>i. full_claims)\<rparr>) =
       Inr (example_state\<lparr>claims := (\<lambda>i. full_claims),
              trace := [SetCurrentPage ''Sisoridae'', ItemGet (ItemPage ''Q1''),
                        Output (HasAllClaims ''Sisoridae'' ''Q1'')]\<rparr>)"
proof -
  have h: "set (map snd (bot_fields example_bot))
             \<subseteq> claims (example_state\<lparr>claims := (\<lambda>i. full_claims)\<rparr>) example_item"
    unfolding example_bot_def full_claims_def by simp
  show ?thesis
    using h whole_entity_short_circuit [OF h, of example_env example_page]
    by (simp add: example_state_def example_item_def example_page_def)
qed

text \<open>
  C2. The duplicate guard. A parameter that is mapped to a property for which the item
  already has a claim is skipped whatever its value is: the step loads the item and prints
  that the claim exists. Nothing else happens: the type of the property is not read, no
  pattern is searched, no page is looked up and \<^verbatim>\<open>user_add_claim\<close> is not called. (A
  parameter whose name or value is blank is dropped before that, silently.)
\<close>

theorem duplicate_guard:
  assumes "map_of (bot_fields b) (strip f) = Some pid" and "pid \<in> claims st item"
  shows "treat_field w b page item (f, v) st =
           (if strip f = [] \<or> strip v = [] then st
            else st\<lparr>trace := trace st @ [ItemGet item, Output (ClaimAlreadyExists pid)]\<rparr>)"
  using assms by (simp add: treat_field_def emit_def Let_def)

theorem duplicate_guard_witness:
  "map_of (bot_fields example_bot) (strip '' orde '') = Some ''P70''
   \<and> ''P70'' \<in> claims (example_state\<lparr>claims := (\<lambda>i. {''P70''})\<rparr>) example_item
   \<and> treat_field example_env example_bot example_page example_item
        ('' orde '', ''[[Actinopterygii]]'') (example_state\<lparr>claims := (\<lambda>i. {''P70''})\<rparr>) =
      example_state\<lparr>claims := (\<lambda>i. {''P70''}),
        trace := [ItemGet example_item, Output (ClaimAlreadyExists ''P70'')]\<rparr>"
proof -
  have s: "strip '' orde '' = ''orde''" "strip ''[[Actinopterygii]]'' = ''[[Actinopterygii]]''"
    by (simp_all add: strip_def is_space_def)
  have h1: "map_of (bot_fields example_bot) (strip '' orde '') = Some ''P70''"
    by (simp add: s example_bot_def)
  have h2: "''P70'' \<in> claims (example_state\<lparr>claims := (\<lambda>i. {''P70''})\<rparr>) example_item"
    by simp
  show ?thesis
    using h1 h2 duplicate_guard [OF h1 h2, of example_env example_page "''[[Actinopterygii]]''"]
    by (simp add: s example_state_def)
qed

subsection \<open>The value kinds\<close>

text \<open>A parameter that reaches the dispatch on the type of the property.\<close>

lemma treat_field_fresh:
  assumes "map_of (bot_fields b) (strip f) = Some pid" and "strip f \<noteq> []" and "strip v \<noteq> []"
    and "pid \<notin> claims st item"
  shows "treat_field w b page item (f, v) st =
           harvest_value w page item pid (strip v) (emit (ItemGet item) st)"
  using assms by (simp add: treat_field_def emit_def Let_def)

lemma harvest_item:
  assumes "claim_type w pid = ''wikibase-item''"
  shows "harvest_value w page item pid val st =
     (case template_link_target w item
             (case link_regex_search w val of Some t \<Rightarrow> t | None \<Rightarrow> val)
             (emit (LinkRegexSearch val) (emit (ClaimType pid) st)) of
        (None, st') \<Rightarrow> st'
      | (Some linked_item, st') \<Rightarrow> add_claim w page item (Claim pid (TItem linked_item)) st')"
  using assms by (simp add: harvest_value_def Let_def)

lemma template_link_target_frame:
  "snd (template_link_target w item lt st) =
      st\<lparr>trace := trace st @ Exists (Page (Link lt DefaultSite 0))
               # drop (Suc (length (trace st))) (trace (snd (template_link_target w item lt st)))\<rparr>"
proof (cases "page_exists w (Page (Link lt DefaultSite 0))")
  case False
  then show ?thesis by (simp add: template_link_target_def emit_def Let_def)
next
  case True
  show ?thesis
  proof (cases "fromPage w (if isRedirectPage w (Page (Link lt DefaultSite 0))
                       then getRedirectTarget w (Page (Link lt DefaultSite 0))
                       else Page (Link lt DefaultSite 0))")
    case None
    with True show ?thesis by (simp add: template_link_target_def emit_def Let_def)
  next
    case (Some li)
    with True show ?thesis by (simp add: template_link_target_def emit_def Let_def)
  qed
qed

lemma template_link_target_frame_ex:
  "\<exists>rest. snd (template_link_target w item lt st) =
      st\<lparr>trace := trace st @ Exists (Page (Link lt DefaultSite 0)) # rest\<rparr>"
  by (rule exI [where x = "drop (Suc (length (trace st)))
         (trace (snd (template_link_target w item lt st)))"])
     (rule template_link_target_frame)

lemma template_link_target_self:
  assumes "fromPage w (if isRedirectPage w (Page (Link lt DefaultSite 0))
                       then getRedirectTarget w (Page (Link lt DefaultSite 0))
                       else Page (Link lt DefaultSite 0)) = Some linked_item"
    and "title linked_item = title item"
  shows "template_link_target w item lt st =
     (None,
      if \<not> page_exists w (Page (Link lt DefaultSite 0))
      then st\<lparr>trace := trace st @ [Exists (Page (Link lt DefaultSite 0)),
                 Output (DoesNotExist (Page (Link lt DefaultSite 0)))]\<rparr>
      else st\<lparr>trace := trace st @ [Exists (Page (Link lt DefaultSite 0)),
                              IsRedirectPage (Page (Link lt DefaultSite 0))]
        @ (if isRedirectPage w (Page (Link lt DefaultSite 0))
           then [GetRedirectTarget (Page (Link lt DefaultSite 0))] else [])
        @ [FromPage (if isRedirectPage w (Page (Link lt DefaultSite 0))
                       then getRedirectTarget w (Page (Link lt DefaultSite 0))
                       else Page (Link lt DefaultSite 0)),
           ItemExists linked_item,
           Output ((if item_exists w linked_item then LinksToItself else NoWikidataItem)
                     (if isRedirectPage w (Page (Link lt DefaultSite 0))
                       then getRedirectTarget w (Page (Link lt DefaultSite 0))
                       else Page (Link lt DefaultSite 0)))]\<rparr>)"
proof (cases "page_exists w (Page (Link lt DefaultSite 0))")
  case False
  then show ?thesis by (simp add: template_link_target_def emit_def Let_def)
next
  case True
  show ?thesis
  proof (cases "isRedirectPage w (Page (Link lt DefaultSite 0))")
    case r: True
    with True assms show ?thesis by (simp add: template_link_target_def emit_def Let_def)
  next
    case r: False
    with True assms show ?thesis by (simp add: template_link_target_def emit_def Let_def)
  qed
qed

text \<open>
  C3. Entity references. For a property of type \<^verbatim>\<open>wikibase-item\<close> that has no claim yet,
  the link text handed to \<^verbatim>\<open>_template_link_target\<close> is group 1 of the first match of
  \<^verbatim>\<open>link_regex\<close> in the trimmed value when there is a match, and the whole trimmed value
  otherwise; the first page looked up is the page of that link text. The field step is the
  outcome of \<^verbatim>\<open>_template_link_target\<close> on it: no item, nothing more; an item, a claim with
  that item as its target.
\<close>

theorem entity_reference_link:
  assumes "map_of (bot_fields b) (strip f) = Some pid" and "strip f \<noteq> []" and "strip v \<noteq> []"
    and "pid \<notin> claims st item" and "claim_type w pid = ''wikibase-item''"
  shows "treat_field w b page item (f, v) st =
     (case template_link_target w item
             (case link_regex_search w (strip v) of Some t \<Rightarrow> t | None \<Rightarrow> strip v)
             (st\<lparr>trace := trace st @ [ItemGet item, ClaimType pid, LinkRegexSearch (strip v)]\<rparr>) of
        (None, st') \<Rightarrow> st'
      | (Some linked_item, st') \<Rightarrow> add_claim w page item (Claim pid (TItem linked_item)) st')
   \<and> take (length (trace st) + 4) (trace (treat_field w b page item (f, v) st)) =
       trace st @ [ItemGet item, ClaimType pid, LinkRegexSearch (strip v),
         Exists (Page (Link (case link_regex_search w (strip v) of Some t \<Rightarrow> t | None \<Rightarrow> strip v)
                   DefaultSite 0))]"
proof -
  define lt where "lt = (case link_regex_search w (strip v) of Some t \<Rightarrow> t | None \<Rightarrow> strip v)"
  define st2 where
    "st2 = st\<lparr>trace := trace st @ [ItemGet item, ClaimType pid, LinkRegexSearch (strip v)]\<rparr>"
  obtain r st3 where tlt: "template_link_target w item lt st2 = (r, st3)"
    by (cases "template_link_target w item lt st2")
  have eq: "treat_field w b page item (f, v) st =
      (case r of None \<Rightarrow> st3
       | Some linked_item \<Rightarrow> add_claim w page item (Claim pid (TItem linked_item)) st3)"
    using tlt treat_field_fresh [OF assms(1-4)] harvest_item [OF assms(5)]
    by (simp add: lt_def st2_def emit_def)
  obtain rest where "snd (template_link_target w item lt st2) =
      st2\<lparr>trace := trace st2 @ Exists (Page (Link lt DefaultSite 0)) # rest\<rparr>"
    using template_link_target_frame_ex by blast
  then have tr: "trace st3 = trace st2 @ Exists (Page (Link lt DefaultSite 0)) # rest"
    by (simp add: tlt)
  have "take (length (trace st) + 4) (trace (treat_field w b page item (f, v) st)) =
       trace st @ [ItemGet item, ClaimType pid, LinkRegexSearch (strip v),
                   Exists (Page (Link lt DefaultSite 0))]"
    unfolding eq using tr
    by (cases r) (simp_all add: st2_def add_claim_def emit_def)
  with eq tlt show ?thesis
    by (simp add: lt_def st2_def)
qed

theorem entity_reference_link_witness:
  "map_of (bot_fields example_bot) (strip ''orde'') = Some ''P70''
   \<and> strip ''orde'' \<noteq> [] \<and> strip ''zie [[Actinopterygii]] daar'' \<noteq> []
   \<and> strip ''xyz-not-a-page'' \<noteq> []
   \<and> ''P70'' \<notin> claims example_state example_item
   \<and> claim_type example_env ''P70'' = ''wikibase-item''
   \<and> treat_field example_env example_bot example_page example_item
        (''orde'', ''zie [[Actinopterygii]] daar'') example_state =
      example_state\<lparr>trace := [ItemGet example_item, ClaimType ''P70'',
            LinkRegexSearch ''zie [[Actinopterygii]] daar'',
            Exists (Page (Link ''Actinopterygii'' DefaultSite 0)),
            IsRedirectPage (Page (Link ''Actinopterygii'' DefaultSite 0)),
            FromPage (Page (Link ''Actinopterygii'' DefaultSite 0)),
            ItemExists (ItemPage ''Q127282''),
            UserAddClaim example_item (Claim ''P70'' (TItem (ItemPage ''Q127282'')))
              (Site ''nl'' ''wikipedia'')],
          claims := (\<lambda>i. {})(example_item := {''P70''})\<rparr>
   \<and> treat_field example_env example_bot example_page example_item
        (''orde'', ''xyz-not-a-page'') example_state =
      example_state\<lparr>trace := [ItemGet example_item, ClaimType ''P70'',
            LinkRegexSearch ''xyz-not-a-page'',
            Exists (Page (Link ''xyz-not-a-page'' DefaultSite 0)),
            Output (DoesNotExist (Page (Link ''xyz-not-a-page'' DefaultSite 0)))]\<rparr>"
proof -
  have s: "strip ''orde'' = ''orde''"
    "strip ''zie [[Actinopterygii]] daar'' = ''zie [[Actinopterygii]] daar''"
    "strip ''xyz-not-a-page'' = ''xyz-not-a-page''"
    by (simp_all add: strip_def is_space_def)
  have h1: "map_of (bot_fields example_bot) (strip ''orde'') = Some ''P70''"
    by (simp add: s example_bot_def)
  have h2: "strip ''orde'' \<noteq> []" by (simp add: s)
  have h3: "strip ''zie [[Actinopterygii]] daar'' \<noteq> []" by (simp add: s)
  have h3': "strip ''xyz-not-a-page'' \<noteq> []" by (simp add: s)
  have h4: "''P70'' \<notin> claims example_state example_item" by (simp add: example_state_def)
  have h5: "claim_type example_env ''P70'' = ''wikibase-item''" by (simp add: example_env_def)
  have r: "link_regex_search example_env ''zie [[Actinopterygii]] daar'' = Some ''Actinopterygii''"
    "link_regex_search example_env ''xyz-not-a-page'' = None"
    by (simp_all add: example_env_def)
  have u: "user_add_claim example_env i c si ks = insert (getID c) ks" for i c si ks
    by (simp add: example_env_def)
  have t1: "template_link_target example_env example_item ''Actinopterygii'' st =
     (Some (ItemPage ''Q127282''),
      st\<lparr>trace := trace st @ [Exists (Page (Link ''Actinopterygii'' DefaultSite 0)),
            IsRedirectPage (Page (Link ''Actinopterygii'' DefaultSite 0)),
            FromPage (Page (Link ''Actinopterygii'' DefaultSite 0)),
            ItemExists (ItemPage ''Q127282'')]\<rparr>)" for st
    by (simp add: template_link_target_def example_env_def example_item_def emit_def Let_def)
  have t2: "template_link_target example_env example_item ''xyz-not-a-page'' st =
     (None,
      st\<lparr>trace := trace st @ [Exists (Page (Link ''xyz-not-a-page'' DefaultSite 0)),
            Output (DoesNotExist (Page (Link ''xyz-not-a-page'' DefaultSite 0)))]\<rparr>)" for st
    by (simp add: template_link_target_def example_env_def example_item_def emit_def Let_def)
  show ?thesis
    using h1 h2 h3 h3' h4 h5
      entity_reference_link [OF h1 h2 h3 h4 h5, of example_page]
      entity_reference_link [OF h1 h2 h3' h4 h5, of example_page]
    by (simp add: s r t1 t2 u add_claim_def emit_def example_state_def example_page_def)
qed

text \<open>
  C4. The self-link guard. When the page of the link text, after one step along a redirect,
  belongs to an item with the title of the item being edited, the field step writes no
  claim: the claims of the items and the calls of \<^verbatim>\<open>user_add_claim\<close> stay as they were. When
  the step reaches the comparison (the parameter is not blank, the property has no claim
  yet, the linked page and the linked item exist), its last call prints that the page links
  to itself.
\<close>

theorem self_link_guard:
  assumes "map_of (bot_fields b) (strip f) = Some pid" and "claim_type w pid = ''wikibase-item''"
    and "linked_page =
           Page (Link (case link_regex_search w (strip v) of Some t \<Rightarrow> t | None \<Rightarrow> strip v)
                   DefaultSite 0)"
    and "final_page = (if isRedirectPage w linked_page
                       then getRedirectTarget w linked_page else linked_page)"
    and "fromPage w final_page = Some linked_item" and "title linked_item = title item"
  shows "claims (treat_field w b page item (f, v) st) = claims st
   \<and> writes (trace (treat_field w b page item (f, v) st)) = writes (trace st)
   \<and> (strip f \<noteq> [] \<and> strip v \<noteq> [] \<and> pid \<notin> claims st item
          \<and> page_exists w linked_page \<and> item_exists w linked_item \<longrightarrow>
       trace (treat_field w b page item (f, v) st) =
          trace st @ [ItemGet item, ClaimType pid, LinkRegexSearch (strip v),
                      Exists linked_page, IsRedirectPage linked_page]
            @ (if isRedirectPage w linked_page then [GetRedirectTarget linked_page] else [])
            @ [FromPage final_page, ItemExists linked_item, Output (LinksToItself final_page)])"
proof (cases "strip f \<noteq> [] \<and> strip v \<noteq> [] \<and> pid \<notin> claims st item")
  case False
  with assms(1) show ?thesis
    by (auto simp add: treat_field_def emit_def Let_def writes_append)
next
  case True
  define lt where "lt = (case link_regex_search w (strip v) of Some t \<Rightarrow> t | None \<Rightarrow> strip v)"
  have fp: "fromPage w (if isRedirectPage w (Page (Link lt DefaultSite 0))
                       then getRedirectTarget w (Page (Link lt DefaultSite 0))
                       else Page (Link lt DefaultSite 0)) = Some linked_item"
    using assms(5) unfolding assms(4) assms(3) lt_def .
  have eq: "treat_field w b page item (f, v) st =
      snd (template_link_target w item lt
        (emit (LinkRegexSearch (strip v)) (emit (ClaimType pid) (emit (ItemGet item) st))))"
    using True treat_field_fresh [OF assms(1), of v st item w page] harvest_item [OF assms(2)]
      template_link_target_self [OF fp assms(6)]
    by (simp add: lt_def)
  show ?thesis
    unfolding eq template_link_target_self [OF fp assms(6)]
    using True assms(3,4)
    by (simp add: emit_def writes_append lt_def)
qed

theorem self_link_guard_witness:
  "map_of (bot_fields example_bot) (strip ''familie'') = Some ''P71''
   \<and> claim_type example_env ''P71'' = ''wikibase-item''
   \<and> fromPage example_env (Page (Link ''Sisoridae'' DefaultSite 0)) = Some (ItemPage ''Q1'')
   \<and> title (ItemPage ''Q1'') = title example_item
   \<and> claims (treat_field example_env example_bot example_page example_item
        (''familie'', ''[[Sisoridae]]'') example_state) = claims example_state
   \<and> writes (trace (treat_field example_env example_bot example_page example_item
        (''familie'', ''[[Sisoridae]]'') example_state)) = []
   \<and> trace (treat_field example_env example_bot example_page example_item
        (''familie'', ''[[Sisoridae]]'') example_state) =
      [ItemGet example_item, ClaimType ''P71'', LinkRegexSearch ''[[Sisoridae]]'',
       Exists (Page (Link ''Sisoridae'' DefaultSite 0)),
       IsRedirectPage (Page (Link ''Sisoridae'' DefaultSite 0)),
       FromPage (Page (Link ''Sisoridae'' DefaultSite 0)),
       ItemExists (ItemPage ''Q1''),
       Output (LinksToItself (Page (Link ''Sisoridae'' DefaultSite 0)))]"
proof -
  have s: "strip ''familie'' = ''familie''" "strip ''[[Sisoridae]]'' = ''[[Sisoridae]]''"
    by (simp_all add: strip_def is_space_def)
  have r: "link_regex_search example_env ''[[Sisoridae]]'' = Some ''Sisoridae''"
    by (simp add: example_env_def)
  have e: "page_exists example_env (Page (Link ''Sisoridae'' DefaultSite 0))"
    "\<not> isRedirectPage example_env (Page (Link ''Sisoridae'' DefaultSite 0))"
    "item_exists example_env (ItemPage ''Q1'')"
    by (simp_all add: example_env_def)
  have h1: "map_of (bot_fields example_bot) (strip ''familie'') = Some ''P71''"
    by (simp add: s example_bot_def)
  have h2: "claim_type example_env ''P71'' = ''wikibase-item''" by (simp add: example_env_def)
  have h3: "Page (Link ''Sisoridae'' DefaultSite 0) =
      Page (Link (case link_regex_search example_env (strip ''[[Sisoridae]]'') of
                    Some t \<Rightarrow> t | None \<Rightarrow> strip ''[[Sisoridae]]'') DefaultSite 0)"
    by (simp add: s r)
  have h4: "Page (Link ''Sisoridae'' DefaultSite 0) =
      (if isRedirectPage example_env (Page (Link ''Sisoridae'' DefaultSite 0))
       then getRedirectTarget example_env (Page (Link ''Sisoridae'' DefaultSite 0))
       else Page (Link ''Sisoridae'' DefaultSite 0))"
    by (simp add: e)
  have h5: "fromPage example_env (Page (Link ''Sisoridae'' DefaultSite 0)) = Some (ItemPage ''Q1'')"
    by (simp add: example_env_def)
  have h6: "title (ItemPage ''Q1'') = title example_item" by (simp add: example_item_def)
  have st: "claims example_state (ItemPage ''Q1'') = {}" "trace example_state = []"
    by (simp_all add: example_state_def)
  show ?thesis
    using h1 h2 h5 h6 self_link_guard [OF h1 h2 h3 h4 h5 h6, of example_page example_state]
    by (simp add: s e st example_item_def)
qed

text \<open>
  C5. URLs. For a property of type \<^verbatim>\<open>url\<close> that has no claim yet, the trimmed value is
  searched with the pattern of \<^verbatim>\<open>compileLinkR\<close>. Without a match the parameter is skipped
  and no claim is written; with a match the claim's target is the group \<open>url\<close> of the first
  match.
\<close>

theorem url_parsing:
  assumes "map_of (bot_fields b) (strip f) = Some pid" and "strip f \<noteq> []" and "strip v \<noteq> []"
    and "pid \<notin> claims st item" and "claim_type w pid = ''url''"
  shows "treat_field w b page item (f, v) st =
     (case linkR_search w (strip v) of
        None \<Rightarrow> st\<lparr>trace := trace st @ [ItemGet item, ClaimType pid, LinkRSearch (strip v)]\<rparr>
      | Some url \<Rightarrow>
          st\<lparr>trace := trace st @ [ItemGet item, ClaimType pid, LinkRSearch (strip v),
                                 UserAddClaim item (Claim pid (TUrl url)) (site_of page)],
             claims := (claims st)(item :=
                user_add_claim w item (Claim pid (TUrl url)) (site_of page) (claims st item))\<rparr>)"
  using assms
  by (simp add: treat_field_def harvest_value_def add_claim_def emit_def Let_def
           split: option.splits)

theorem url_parsing_witness:
  "map_of (bot_fields example_bot) (strip ''website'') = Some ''P856''
   \<and> strip ''website'' \<noteq> [] \<and> strip ''[http://example.org/x label]'' \<noteq> []
   \<and> strip ''example.org'' \<noteq> []
   \<and> ''P856'' \<notin> claims example_state example_item
   \<and> claim_type example_env ''P856'' = ''url''
   \<and> treat_field example_env example_bot example_page example_item
        (''website'', ''[http://example.org/x label]'') example_state =
      example_state\<lparr>trace := [ItemGet example_item, ClaimType ''P856'',
            LinkRSearch ''[http://example.org/x label]'',
            UserAddClaim example_item (Claim ''P856'' (TUrl ''http://example.org/x''))
              (Site ''nl'' ''wikipedia'')],
          claims := (\<lambda>i. {})(example_item := {''P856''})\<rparr>
   \<and> treat_field example_env example_bot example_page example_item
        (''website'', ''example.org'') example_state =
      example_state\<lparr>trace := [ItemGet example_item, ClaimType ''P856'',
            LinkRSearch ''example.org'']\<rparr>"
proof -
  have s: "strip ''website'' = ''website''"
    "strip ''[http://example.org/x label]'' = ''[http://example.org/x label]''"
    "strip ''example.org'' = ''example.org''"
    by (simp_all add: strip_def is_space_def)
  have h1: "map_of (bot_fields example_bot) (strip ''website'') = Some ''P856''"
    by (simp add: s example_bot_def)
  have h2: "strip ''website'' \<noteq> []" by (simp add: s)
  have h3: "strip ''[http://example.org/x label]'' \<noteq> []" by (simp add: s)
  have h3': "strip ''example.org'' \<noteq> []" by (simp add: s)
  have h4: "''P856'' \<notin> claims example_state example_item" by (simp add: example_state_def)
  have h5: "claim_type example_env ''P856'' = ''url''" by (simp add: example_env_def)
  show ?thesis
    using h1 h2 h3 h3' h4 h5
      url_parsing [OF h1 h2 h3 h4 h5, of example_page]
      url_parsing [OF h1 h2 h3' h4 h5, of example_page]
    by (simp add: s example_state_def example_env_def example_page_def)
qed

text \<open>
  C6. Media references. For a property of type \<^verbatim>\<open>commonsMedia\<close> that has no claim yet, the
  trimmed value is a link on the site \<^verbatim>\<open>commons:commons\<close> with default namespace 6, whatever
  the site of the page is. A redirect is followed once. When the file page reached does not
  exist, a message is printed and no claim is written; otherwise the file page itself is
  the target of the claim.
\<close>

theorem media_reference:
  assumes "map_of (bot_fields b) (strip f) = Some pid" and "strip f \<noteq> []" and "strip v \<noteq> []"
    and "pid \<notin> claims st item" and "claim_type w pid = ''commonsMedia''"
  shows "treat_field w b page item (f, v) st =
     (let image = FilePage (Link (strip v) (Site ''commons'' ''commons'') 6);
          image' = (if isRedirectPage w image
                    then FilePageOf (getRedirectTarget w image) else image);
          calls = [ItemGet item, ClaimType pid, IsRedirectPage image]
                  @ (if isRedirectPage w image then [GetRedirectTarget image] else [])
                  @ [Exists image']
      in if page_exists w image'
         then st\<lparr>trace := trace st @ calls
                     @ [UserAddClaim item (Claim pid (TFile image')) (site_of page)],
                 claims := (claims st)(item :=
                   user_add_claim w item (Claim pid (TFile image')) (site_of page) (claims st item))\<rparr>
         else st\<lparr>trace := trace st @ calls @ [Output (FileDoesNotExist image')]\<rparr>)"
  using assms
  by (simp add: treat_field_def harvest_value_def add_claim_def emit_def Let_def commonssite_def)

theorem media_reference_witness:
  "map_of (bot_fields example_bot) (strip ''afbeelding'') = Some ''P18''
   \<and> strip ''afbeelding'' \<noteq> [] \<and> strip ''Old.jpg'' \<noteq> []
   \<and> ''P18'' \<notin> claims example_state example_item
   \<and> claim_type example_env ''P18'' = ''commonsMedia''
   \<and> treat_field example_env example_bot example_page example_item
        (''afbeelding'', ''Old.jpg'') example_state =
      example_state\<lparr>trace := [ItemGet example_item, ClaimType ''P18'',
            IsRedirectPage (FilePage (Link ''Old.jpg'' (Site ''commons'' ''commons'') 6)),
            GetRedirectTarget (FilePage (Link ''Old.jpg'' (Site ''commons'' ''commons'') 6)),
            Exists (FilePageOf (Page (Link ''File:Fish.jpg'' (Site ''commons'' ''commons'') 0))),
            UserAddClaim example_item
              (Claim ''P18'' (TFile (FilePageOf
                 (Page (Link ''File:Fish.jpg'' (Site ''commons'' ''commons'') 0)))))
              (Site ''nl'' ''wikipedia'')],
          claims := (\<lambda>i. {})(example_item := {''P18''})\<rparr>"
proof -
  have s: "strip ''afbeelding'' = ''afbeelding''" "strip ''Old.jpg'' = ''Old.jpg''"
    by (simp_all add: strip_def is_space_def)
  have h1: "map_of (bot_fields example_bot) (strip ''afbeelding'') = Some ''P18''"
    by (simp add: s example_bot_def)
  have h2: "strip ''afbeelding'' \<noteq> []" by (simp add: s)
  have h3: "strip ''Old.jpg'' \<noteq> []" by (simp add: s)
  have h4: "''P18'' \<notin> claims example_state example_item" by (simp add: example_state_def)
  have h5: "claim_type example_env ''P18'' = ''commonsMedia''" by (simp add: example_env_def)
  show ?thesis
    using h1 h2 h3 h4 h5 media_reference [OF h1 h2 h3 h4 h5, of example_page]
    by (simp add: s example_state_def example_env_def example_page_def commonssite_def Let_def)
qed

text \<open>
  C7. Unsupported value kinds. For a property whose type is none of \<^verbatim>\<open>wikibase-item\<close>,
  \<^verbatim>\<open>string\<close>, \<^verbatim>\<open>external-id\<close>, \<^verbatim>\<open>url\<close> and \<^verbatim>\<open>commonsMedia\<close>, the field step writes no
  claim for any value: when the dispatch is reached it loads the item, reads the type and
  prints that the type is not supported; the rest of the state is untouched. (Before the
  dispatch, a blank parameter is dropped and a property that has a claim is reported as
  existing.)
\<close>

theorem unsupported_kind:
  assumes "map_of (bot_fields b) (strip f) = Some pid"
    and "claim_type w pid \<notin> {''wikibase-item'', ''string'', ''external-id'', ''url'', ''commonsMedia''}"
  shows "treat_field w b page item (f, v) st =
     (if strip f = [] \<or> strip v = [] then st
      else if pid \<in> claims st item
      then st\<lparr>trace := trace st @ [ItemGet item, Output (ClaimAlreadyExists pid)]\<rparr>
      else st\<lparr>trace := trace st @
             [ItemGet item, ClaimType pid, Output (UnsupportedDatatype (claim_type w pid))]\<rparr>)"
  using assms by (simp add: treat_field_def harvest_value_def emit_def Let_def)

theorem unsupported_kind_witness:
  "map_of (bot_fields example_bot) (strip ''plaats'') = Some ''P625''
   \<and> claim_type example_env ''P625''
       \<notin> {''wikibase-item'', ''string'', ''external-id'', ''url'', ''commonsMedia''}
   \<and> treat_field example_env example_bot example_page example_item
        (''plaats'', ''52N 4E'') example_state =
      example_state\<lparr>trace := [ItemGet example_item, ClaimType ''P625'',
                       Output (UnsupportedDatatype ''globe-coordinate'')]\<rparr>"
proof -
  have s: "strip ''plaats'' = ''plaats''" "strip ''52N 4E'' = ''52N 4E''"
    by (simp_all add: strip_def is_space_def)
  have h1: "map_of (bot_fields example_bot) (strip ''plaats'') = Some ''P625''"
    by (simp add: s example_bot_def)
  have h2: "claim_type example_env ''P625''
       \<notin> {''wikibase-item'', ''string'', ''external-id'', ''url'', ''commonsMedia''}"
    by (simp add: example_env_def)
  show ?thesis
    using h1 h2 unsupported_kind [OF h1 h2, of example_page example_item "''52N 4E''" example_state]
    by (simp add: s example_state_def example_env_def)
qed

subsection \<open>The field arguments of \<^verbatim>\<open>main\<close>\<close>

lemma arg_step_seen:
  "GetCombinedGenerator \<notin> set (seen v) \<Longrightarrow> GetCombinedGenerator \<notin> set (seen (arg_step m v arg))"
  by (simp add: arg_step_def)

lemma foldl_arg_step_seen:
  "GetCombinedGenerator \<notin> set (seen v)
     \<Longrightarrow> GetCombinedGenerator \<notin> set (seen (foldl (arg_step m) v args))"
  by (induction args arbitrary: v) (simp_all add: arg_step_seen)

lemma parse_args_seen: "GetCombinedGenerator \<notin> set (seen (parse_args m local_args))"
  unfolding parse_args_def by (rule foldl_arg_step_seen) simp

lemma build_fields_even:
  "even (length args) \<Longrightarrow>
     build_fields args fs = Inr (fold (\<lambda>kp. AList.update (fst kp) (snd kp)) (pairs args) fs)"
proof (induction args fs rule: build_fields.induct)
  case (1 fs)
  show ?case by simp
next
  case (2 k fs)
  then show ?case by simp
next
  case (3 k p rest fs)
  from "3.prems" have ev: "even (length rest)" by simp
  show ?case
    using "3.IH" [OF ev] by simp
qed

lemma map_of_fold_update:
  "map_of (fold (\<lambda>kp. AList.update (fst kp) (snd kp)) ps fs) = map_of fs ++ map_of (rev ps)"
proof (induction ps arbitrary: fs)
  case Nil
  show ?case by simp
next
  case (Cons kp ps)
  have "map_of (fold (\<lambda>kp. AList.update (fst kp) (snd kp)) (kp # ps) fs)
      = map_of (AList.update (fst kp) (snd kp) fs) ++ map_of (rev ps)"
    using Cons.IH [of "AList.update (fst kp) (snd kp) fs"] by simp
  also have "\<dots> = map_of fs ++ map_of (rev (kp # ps))"
    by (simp add: update_conv')
  finally show ?case .
qed

lemma distinct_fold_update:
  "distinct (map fst fs) \<Longrightarrow>
     distinct (map fst (fold (\<lambda>kp. AList.update (fst kp) (snd kp)) ps fs))"
  by (induction ps arbitrary: fs) (simp_all add: distinct_update)

lemma map_of_rev_distinct:
  "distinct (map fst xs) \<Longrightarrow> map_of (rev xs) = map_of xs"
  by (rule map_of_inject_set [THEN iffD2]) (simp_all add: distinct_map)


text \<open>
  C8, as the code has it. When the number of field arguments is odd, \<^verbatim>\<open>main\<close> ends before
  \<^verbatim>\<open>getCombinedGenerator\<close> is called and before a robot is built: it raises \<^verbatim>\<open>ValueError\<close>
  when a template title was given, and it has returned after the error message about the
  missing template otherwise. When the number is even and a template title was given, the
  robot gets the dictionary in which every field name has the property identifier that
  follows its last occurrence; when no field name occurs twice, every consecutive pair is
  an entry of the dictionary.
\<close>

theorem main_field_arguments:
  "(odd (length (commandline_arguments (parse_args m local_args))) \<longrightarrow>
      main_outcome (main m local_args) =
        (if template_title (parse_args m local_args) = [] then NoTemplate else Raised ValueError)
      \<and> GetCombinedGenerator \<notin> set (main_events (main m local_args)))
   \<and> (even (length (commandline_arguments (parse_args m local_args)))
        \<and> template_title (parse_args m local_args) \<noteq> [] \<longrightarrow>
      main_outcome (main m local_args) =
        BotRun (template_title (parse_args m local_args)) (robot_fields (main_outcome (main m local_args)))
      \<and> distinct (map fst (robot_fields (main_outcome (main m local_args))))
      \<and> map_of (robot_fields (main_outcome (main m local_args))) =
          map_of (rev (pairs (commandline_arguments (parse_args m local_args))))
      \<and> (distinct (map fst (pairs (commandline_arguments (parse_args m local_args)))) \<longrightarrow>
          (\<forall>kp \<in> set (pairs (commandline_arguments (parse_args m local_args))).
             map_of (robot_fields (main_outcome (main m local_args))) (fst kp) = Some (snd kp))))"
proof -
  define v where "v = parse_args m local_args"
  define fs where
    "fs = fold (\<lambda>kp. AList.update (fst kp) (snd kp)) (pairs (commandline_arguments v)) []"
  have odd_case: "main_outcome (main m local_args) =
        (if template_title v = [] then NoTemplate else Raised ValueError)
      \<and> GetCombinedGenerator \<notin> set (main_events (main m local_args))"
    if "odd (length (commandline_arguments v))"
    using that parse_args_seen [of m local_args]
    by (simp add: main_def Let_def v_def)
  have even_case: "main_outcome (main m local_args) = BotRun (template_title v) fs"
    if "even (length (commandline_arguments v))" and "template_title v \<noteq> []"
    using that build_fields_even [of "commandline_arguments v" "[]"]
    by (simp add: main_def Let_def v_def fs_def)
  have m: "map_of fs = map_of (rev (pairs (commandline_arguments v)))"
    unfolding fs_def by (simp add: map_of_fold_update)
  have d: "distinct (map fst fs)"
    unfolding fs_def by (rule distinct_fold_update) simp
  have entries: "map_of fs (fst kp) = Some (snd kp)"
    if "distinct (map fst (pairs (commandline_arguments v)))"
      and "kp \<in> set (pairs (commandline_arguments v))" for kp
    using that m map_of_rev_distinct [of "pairs (commandline_arguments v)"]
    by (cases kp) simp
  show ?thesis
    using odd_case even_case m d entries unfolding v_def [symmetric] by auto
qed

theorem main_field_arguments_witness:
  "odd (length (commandline_arguments
      (parse_args example_menv [''-template:Taxobox'', ''orde'', ''P70'', ''familie''])))
   \<and> main_outcome (main example_menv [''-template:Taxobox'', ''orde'', ''P70'', ''familie''])
       = Raised ValueError
   \<and> GetCombinedGenerator
       \<notin> set (main_events (main example_menv [''-template:Taxobox'', ''orde'', ''P70'', ''familie'']))
   \<and> even (length (commandline_arguments
      (parse_args example_menv [''-template:Taxobox'', ''orde'', ''P70'', ''familie'', ''P71''])))
   \<and> template_title
        (parse_args example_menv [''-template:Taxobox'', ''orde'', ''P70'', ''familie'', ''P71''])
       \<noteq> []
   \<and> distinct (map fst (pairs (commandline_arguments
        (parse_args example_menv [''-template:Taxobox'', ''orde'', ''P70'', ''familie'', ''P71'']))))
   \<and> (''familie'', ''P71'') \<in> set (pairs (commandline_arguments
        (parse_args example_menv [''-template:Taxobox'', ''orde'', ''P70'', ''familie'', ''P71''])))
   \<and> main_outcome
        (main example_menv [''-template:Taxobox'', ''orde'', ''P70'', ''familie'', ''P71''])
       = BotRun ''Taxobox'' [(''orde'', ''P70''), (''familie'', ''P71'')]
   \<and> map_of (robot_fields (main_outcome
        (main example_menv [''-template:Taxobox'', ''orde'', ''P70'', ''familie'', ''P71''])))
        ''familie'' = Some ''P71''"
proof -
  have p1: "parse_args example_menv [''-template:Taxobox'', ''orde'', ''P70'', ''familie''] =
     \<lparr>template_title = ''Taxobox'', commandline_arguments = [''orde'', ''P70'', ''familie''],
      gen_args = [],
      seen = [HandleArg ''orde'', HandleArg ''P70'', HandleArg ''familie'']\<rparr>"
    by (simp add: parse_args_def arg_step_def example_menv_def)
  have p2: "parse_args example_menv [''-template:Taxobox'', ''orde'', ''P70'', ''familie'', ''P71''] =
     \<lparr>template_title = ''Taxobox'',
      commandline_arguments = [''orde'', ''P70'', ''familie'', ''P71''],
      gen_args = [],
      seen = [HandleArg ''orde'', HandleArg ''P70'', HandleArg ''familie'', HandleArg ''P71'']\<rparr>"
    by (simp add: parse_args_def arg_step_def example_menv_def)
  show ?thesis
    using main_field_arguments [of example_menv "[''-template:Taxobox'', ''orde'', ''P70'', ''familie'']"]
      main_field_arguments [of example_menv
        "[''-template:Taxobox'', ''orde'', ''P70'', ''familie'', ''P71'']"]
    by (simp add: p1 p2 main_def Let_def)
qed


text \<open>
  The claim C8 as it is stated fails for a field name that occurs twice: the later pair
  replaces the earlier one, so the pair \<^verbatim>\<open>orde P70\<close> of the even list
  \<^verbatim>\<open>orde P70 orde P71\<close> is not an entry of the dictionary.
\<close>

theorem main_repeated_field_counterexample:
  "even (length (commandline_arguments
      (parse_args example_menv [''-template:Taxobox'', ''orde'', ''P70'', ''orde'', ''P71''])))
   \<and> (''orde'', ''P70'') \<in> set (pairs (commandline_arguments
        (parse_args example_menv [''-template:Taxobox'', ''orde'', ''P70'', ''orde'', ''P71''])))
   \<and> main_outcome (main example_menv [''-template:Taxobox'', ''orde'', ''P70'', ''orde'', ''P71''])
       = BotRun ''Taxobox'' [(''orde'', ''P71'')]
   \<and> map_of (robot_fields (main_outcome
        (main example_menv [''-template:Taxobox'', ''orde'', ''P70'', ''orde'', ''P71''])))
        ''orde'' \<noteq> Some ''P70''"
proof -
  have p: "parse_args example_menv [''-template:Taxobox'', ''orde'', ''P70'', ''orde'', ''P71''] =
     \<lparr>template_title = ''Taxobox'',
      commandline_arguments = [''orde'', ''P70'', ''orde'', ''P71''],
      gen_args = [],
      seen = [HandleArg ''orde'', HandleArg ''P70'', HandleArg ''orde'', HandleArg ''P71'']\<rparr>"
    by (simp add: parse_args_def arg_step_def example_menv_def)
  show ?thesis
    by (simp add: p main_def Let_def)
qed

subsection \<open>Cancellation\<close>

text \<open>The field step commutes with the signal part of the state: it neither reads nor
  writes the flag, the printed lines or the signals to come.\<close>

lemma emit_control: "emit e (set_control x y z st) = set_control x y z (emit e st)"
  by (simp add: emit_def set_control_def)

lemma claims_control [simp]: "claims (set_control x y z st) = claims st"
  by (simp add: set_control_def)

lemma claims_emit [simp]: "claims (emit e st) = claims st"
  by (simp add: emit_def)

lemma add_claim_control:
  "add_claim w page item c (set_control x y z st) = set_control x y z (add_claim w page item c st)"
  by (simp add: add_claim_def emit_def set_control_def)

lemma template_link_target_control:
  "template_link_target w item lt (set_control x y z st) =
     (fst (template_link_target w item lt st),
      set_control x y z (snd (template_link_target w item lt st)))"
proof (cases "page_exists w (Page (Link lt DefaultSite 0))")
  case False
  then show ?thesis by (simp add: template_link_target_def emit_control Let_def)
next
  case True
  show ?thesis
  proof (cases "fromPage w (if isRedirectPage w (Page (Link lt DefaultSite 0))
                       then getRedirectTarget w (Page (Link lt DefaultSite 0))
                       else Page (Link lt DefaultSite 0))")
    case None
    with True show ?thesis by (simp add: template_link_target_def emit_control Let_def)
  next
    case (Some li)
    with True show ?thesis by (simp add: template_link_target_def emit_control Let_def)
  qed
qed

lemma harvest_value_control:
  "harvest_value w page item pid val (set_control x y z st) =
     set_control x y z (harvest_value w page item pid val st)"
proof (cases "claim_type w pid = ''wikibase-item''")
  case True
  obtain r st' where t: "template_link_target w item
             (case link_regex_search w val of Some t \<Rightarrow> t | None \<Rightarrow> val)
             (emit (LinkRegexSearch val) (emit (ClaimType pid) st)) = (r, st')"
    by (cases "template_link_target w item
             (case link_regex_search w val of Some t \<Rightarrow> t | None \<Rightarrow> val)
             (emit (LinkRegexSearch val) (emit (ClaimType pid) st))")
  show ?thesis
    unfolding harvest_item [OF True]
    by (cases r) (simp_all add: emit_control template_link_target_control t add_claim_control)
next
  case False
  then show ?thesis
    by (simp add: harvest_value_def Let_def emit_control add_claim_control split: option.split)
qed

lemma treat_field_control:
  "treat_field w b page item fv (set_control x y z st) =
     set_control x y z (treat_field w b page item fv st)"
  by (simp add: treat_field_def Let_def emit_control harvest_value_control split: option.split)


lemma control_self: "set_control (willstop st) (stdout st) (signals st) st = st"
  by (simp add: set_control_def)

lemma treat_field_self:
  "treat_field w b page item fv st =
     set_control (willstop st) (stdout st) (signals st) (treat_field w b page item fv st)"
  using treat_field_control [of w b page item fv "willstop st" "stdout st" "signals st" st]
  by (simp add: control_self)

lemma treat_field_willstop: "willstop (treat_field w b page item fv st) = willstop st"
  using arg_cong [OF treat_field_self, of willstop w b page item fv st]
  by (simp add: set_control_def)

lemma treat_field_signals: "signals (treat_field w b page item fv st) = signals st"
  using arg_cong [OF treat_field_self, of signals w b page item fv st]
  by (simp add: set_control_def)

lemma treat_field_core: "core (treat_field w b page item fv st) = treat_field w b page item fv (core st)"
  by (simp add: core_def treat_field_control)

lemma emit_core: "core (emit e st) = emit e (core st)"
  by (simp add: core_def emit_control)

lemma core_core [simp]: "core (core st) = core st"
  by (simp add: core_def set_control_def)

lemma signals_core [simp]: "signals (core st) = []"
  by (simp add: core_def set_control_def)

lemma claims_core [simp]: "claims (core st) = claims st"
  by (simp add: core_def)

lemma deliver_core [simp]: "deliver (core st) = Inr (core st)"
  by (simp add: deliver_def)

lemma follows_refl: "calm st \<Longrightarrow> follows st st"
  by (simp add: follows_def)

lemma follows_trans: "follows st st1 \<Longrightarrow> follows st1 st2 \<Longrightarrow> follows st st2"
  by (auto simp add: follows_def)

lemma follows_calm: "follows st st' \<Longrightarrow> calm st'"
  by (simp add: follows_def)

lemma follows_treat_field: "calm st \<Longrightarrow> follows st (treat_field w b page item fv st)"
  by (simp add: follows_def calm_def treat_field_willstop treat_field_signals)

lemma follows_emit: "calm st \<Longrightarrow> follows st (emit e st)"
  by (simp add: follows_def calm_def emit_def)

lemma deliver_calm:
  assumes "calm st"
  shows "\<exists>st1. deliver st = Inr st1 \<and> core st1 = core st \<and> follows st st1"
proof (cases "signals st")
  case Nil
  with assms show ?thesis
    by (simp add: deliver_def follows_def)
next
  case (Cons n ns)
  show ?thesis
  proof (cases n)
    case 0
    from assms Cons 0 have a: "sum_list ns \<le> 1" and b: "willstop st \<Longrightarrow> sum_list ns = 0"
      by (auto simp add: calm_def simp del: sum_list_eq_0_iff split: if_splits)
    from Cons 0 a b show ?thesis
      by (auto simp add: deliver_def follows_def calm_def core_def set_control_def
            simp del: sum_list_eq_0_iff)
  next
    case (Suc k)
    with Cons assms have k: "k = 0" and ns: "sum_list ns = 0" and w: "\<not> willstop st"
      by (auto simp add: calm_def simp del: sum_list_eq_0_iff split: if_splits)
    from Cons Suc k ns w show ?thesis
      by (simp add: deliver_def signal_handler_def follows_def calm_def core_def set_control_def
            del: sum_list_eq_0_iff)
  qed
qed

lemma fields_loop_calm:
  "calm st \<Longrightarrow> \<exists>st'. fields_loop w b page item fs st = Inr st'
        \<and> fields_loop w b page item fs (core st) = Inr (core st') \<and> follows st st'"
proof (induction fs arbitrary: st)
  case Nil
  then show ?case by (simp add: follows_refl)
next
  case (Cons fv fs)
  from deliver_calm [OF Cons.prems] obtain st1 where
    d: "deliver st = Inr st1" and c1: "core st1 = core st" and f1: "follows st st1"
    by blast
  let ?st2 = "treat_field w b page item fv st1"
  have f2: "follows st1 ?st2"
    by (rule follows_treat_field) (rule follows_calm [OF f1])
  from Cons.IH [OF follows_calm [OF f2]] obtain st' where
    l: "fields_loop w b page item fs ?st2 = Inr st'"
    and lc: "fields_loop w b page item fs (core ?st2) = Inr (core st')"
    and f3: "follows ?st2 st'"
    by blast
  have "fields_loop w b page item (fv # fs) st = Inr st'"
    by (simp add: d l)
  moreover have "fields_loop w b page item (fv # fs) (core st) = Inr (core st')"
    using lc by (simp add: treat_field_core c1)
  moreover have "follows st st'"
    by (rule follows_trans [OF follows_trans [OF f1 f2] f3])
  ultimately show ?case by blast
qed

lemma treat_template_calm:
  assumes "calm st"
  shows "\<exists>st'. treat_template w b page item tf st = Inr st'
        \<and> treat_template w b page item tf (core st) = Inr (core st') \<and> follows st st'"
proof -
  let ?st1 = "emit (TemplateTitle (site_of page) (fst tf)) st"
  have f1: "follows st ?st1" by (rule follows_emit [OF assms])
  show ?thesis
  proof (cases "title_ns10 w (site_of page) (fst tf)")
    case None
    have "follows ?st1 (emit (Output (FailedParsingTemplate (fst tf))) ?st1)"
      by (rule follows_emit [OF follows_calm [OF f1]])
    with f1 have "follows st (emit (Output (FailedParsingTemplate (fst tf))) ?st1)"
      by (rule follows_trans)
    with None show ?thesis
      by (simp add: treat_template_def Let_def emit_core)
  next
    case (Some template)
    show ?thesis
    proof (cases "template \<in> set (templateTitles b)")
      case False
      with Some f1 show ?thesis
        by (simp add: treat_template_def Let_def emit_core)
    next
      case True
      from fields_loop_calm [OF follows_calm [OF f1], of w b page item "snd tf"] obtain st' where
        "fields_loop w b page item (snd tf) ?st1 = Inr st'"
        "fields_loop w b page item (snd tf) (core ?st1) = Inr (core st')"
        "follows ?st1 st'"
        by blast
      with Some True follows_trans [OF f1] show ?thesis
        by (simp add: treat_template_def Let_def emit_core)
    qed
  qed
qed

lemma templates_loop_calm:
  "calm st \<Longrightarrow> \<exists>st'. templates_loop w b page item ts st = Inr st'
        \<and> templates_loop w b page item ts (core st) = Inr (core st') \<and> follows st st'"
proof (induction ts arbitrary: st)
  case Nil
  then show ?case by (simp add: follows_refl)
next
  case (Cons tf ts)
  from deliver_calm [OF Cons.prems] obtain st1 where
    d: "deliver st = Inr st1" and c1: "core st1 = core st" and f1: "follows st st1"
    by blast
  from treat_template_calm [OF follows_calm [OF f1], of w b page item tf] obtain st2 where
    t: "treat_template w b page item tf st1 = Inr st2"
    and tc: "treat_template w b page item tf (core st1) = Inr (core st2)"
    and f2: "follows st1 st2"
    by blast
  from Cons.IH [OF follows_calm [OF f2]] obtain st' where
    l: "templates_loop w b page item ts st2 = Inr st'"
    and lc: "templates_loop w b page item ts (core st2) = Inr (core st')"
    and f3: "follows st2 st'"
    by blast
  have "templates_loop w b page item (tf # ts) st = Inr st'"
    by (simp add: d t l)
  moreover have "templates_loop w b page item (tf # ts) (core st) = Inr (core st')"
    using tc lc by (simp add: c1)
  moreover have "follows st st'"
    by (rule follows_trans [OF follows_trans [OF f1 f2] f3])
  ultimately show ?case by blast
qed

lemma treat_calm:
  assumes "\<not> willstop st" and "calm st"
  shows "\<exists>st'. treat w b page item st = Inr st'
        \<and> treat w b page item (core st) = Inr (core st') \<and> follows st st'"
proof -
  let ?st1 = "emit (ItemGet item) (emit (SetCurrentPage (page_title page)) st)"
  have c: "core ?st1 = emit (ItemGet item) (emit (SetCurrentPage (page_title page)) (core st))"
    by (simp add: emit_core)
  have w: "\<not> willstop (core st)" by (simp add: core_def set_control_def)
  have f1: "follows st ?st1"
    by (rule follows_trans [OF follows_emit [OF assms(2)]])
       (rule follows_emit [OF follows_calm [OF follows_emit [OF assms(2)]]])
  show ?thesis
  proof (cases "set (map snd (bot_fields b)) \<subseteq> claims st item")
    case True
    have "follows ?st1 (emit (Output (HasAllClaims (page_title page) (title item))) ?st1)"
      by (rule follows_emit [OF follows_calm [OF f1]])
    with f1 have "follows st (emit (Output (HasAllClaims (page_title page) (title item))) ?st1)"
      by (rule follows_trans)
    with True assms(1) w show ?thesis
      by (simp add: treat_def Let_def emit_core)
  next
    case False
    from templates_loop_calm [OF follows_calm [OF f1], of w b page item "raw_extracted_templates page"]
    obtain st' where
      "templates_loop w b page item (raw_extracted_templates page) ?st1 = Inr st'"
      "templates_loop w b page item (raw_extracted_templates page) (core ?st1) = Inr (core st')"
      "follows ?st1 st'"
      by blast
    with False assms(1) w follows_trans [OF f1] show ?thesis
      by (simp add: treat_def Let_def emit_core)
  qed
qed


lemma trace_core [simp]: "trace (core st) = trace st"
  by (simp add: core_def set_control_def)

lemma core_signals [simp]: "core (st\<lparr>signals := z\<rparr>) = core st"
  by (simp add: core_def set_control_def)

lemma deliver_abort:
  "willstop st \<Longrightarrow> signals st = Suc n # ns \<Longrightarrow>
     deliver st = Inl (KeyboardInterrupt, st\<lparr>signals := ns\<rparr>)"
  by (simp add: deliver_def signal_handler_def)

lemma deliver_twice:
  "\<not> willstop st \<Longrightarrow> signals st = Suc (Suc n) # ns \<Longrightarrow>
     deliver st = Inl (KeyboardInterrupt,
       st\<lparr>signals := ns, willstop := True, stdout := stdout st @ [ctrl_c_text]\<rparr>)"
  by (simp add: deliver_def signal_handler_def)

lemma strips:
  "strip ''orde'' = ''orde''" "strip ''familie'' = ''familie''"
  "strip ''[[Actinopterygii]]'' = ''[[Actinopterygii]]''"
  "strip ''xyz-not-a-page'' = ''xyz-not-a-page''"
  by (simp_all add: strip_def is_space_def)

lemma run_interrupted:
  "treat example_env example_bot example_page example_item (example_state\<lparr>signals := [0, 0, 1]\<rparr>) =
     Inr (example_state\<lparr>willstop := True, stdout := [ctrl_c_text],
            claims := (\<lambda>i. {})(ItemPage ''Q1'' := {''P70''}), trace := example_trace\<rparr>)"
  by (simp add: treat_def treat_template_def treat_field_def harvest_value_def
        template_link_target_def add_claim_def emit_def deliver_def signal_handler_def Let_def
        example_env_def example_bot_def example_page_def example_item_def example_state_def
        example_trace_def strips)

lemma run_quiet:
  "treat example_env example_bot example_page example_item example_state =
     Inr (example_state\<lparr>claims := (\<lambda>i. {})(ItemPage ''Q1'' := {''P70''}), trace := example_trace\<rparr>)"
  by (simp add: treat_def treat_template_def treat_field_def harvest_value_def
        template_link_target_def add_claim_def emit_def deliver_def signal_handler_def Let_def
        example_env_def example_bot_def example_page_def example_item_def example_state_def
        example_trace_def strips)

lemma run_forced:
  "treat example_env example_bot example_page example_item (example_state\<lparr>signals := [0, 0, 2]\<rparr>) =
     Inl (KeyboardInterrupt,
          example_state\<lparr>willstop := True, stdout := [ctrl_c_text],
            claims := (\<lambda>i. {})(ItemPage ''Q1'' := {''P70''}), trace := take 11 example_trace\<rparr>)"
  by (simp add: treat_def treat_template_def treat_field_def harvest_value_def
        template_link_target_def add_claim_def emit_def deliver_def signal_handler_def Let_def
        example_env_def example_bot_def example_page_def example_item_def example_state_def
        example_trace_def strips eval_nat_numeral)

text \<open>
  C9. Two-tier cancellation. \<^verbatim>\<open>treat\<close> tests \<^verbatim>\<open>willstop\<close> at its start and raises
  \<^verbatim>\<open>KeyboardInterrupt\<close> there, before anything else. When the flag is not set at the start
  and at most one SIGINT arrives while the page is processed (at the start of any iteration
  of the two loops), \<^verbatim>\<open>treat\<close> returns normally with the claims and the trace of the run
  without signals; the flag is set exactly when the signal did arrive, and then \<^verbatim>\<open>treat\<close>
  on the next page and item raises at once. A SIGINT that arrives when the flag is set, or
  a second one after the first, raises \<^verbatim>\<open>KeyboardInterrupt\<close> inside the loop, with the rest
  of the page left unprocessed.
\<close>

theorem two_tier_cancellation:
  "(willstop st \<longrightarrow> treat w b page item st = Inl (KeyboardInterrupt, st))
   \<and> (\<not> willstop st \<and> sum_list (signals st) \<le> 1 \<longrightarrow>
        (\<exists>st' q. treat w b page item st = Inr st'
            \<and> treat w b page item (st\<lparr>signals := []\<rparr>) = Inr q
            \<and> claims st' = claims q \<and> trace st' = trace q
            \<and> willstop st' = (sum_list (signals st') < sum_list (signals st))
            \<and> (willstop st' \<longrightarrow>
                treat w b page' item' st' = Inl (KeyboardInterrupt, st'))))
   \<and> (willstop st \<and> signals st = Suc n # ns \<longrightarrow>
        fields_loop w b page item (fv # fvs) st = Inl (KeyboardInterrupt, st\<lparr>signals := ns\<rparr>)
        \<and> templates_loop w b page item (tf # tfs) st =
            Inl (KeyboardInterrupt, st\<lparr>signals := ns\<rparr>))
   \<and> (\<not> willstop st \<and> signals st = Suc (Suc n) # ns \<longrightarrow>
        fields_loop w b page item (fv # fvs) st =
          Inl (KeyboardInterrupt,
            st\<lparr>signals := ns, willstop := True, stdout := stdout st @ [ctrl_c_text]\<rparr>)
        \<and> templates_loop w b page item (tf # tfs) st =
          Inl (KeyboardInterrupt,
            st\<lparr>signals := ns, willstop := True, stdout := stdout st @ [ctrl_c_text]\<rparr>))"
proof -
  have graceful: "\<exists>st' q. treat w b page item st = Inr st'
            \<and> treat w b page item (st\<lparr>signals := []\<rparr>) = Inr q
            \<and> claims st' = claims q \<and> trace st' = trace q
            \<and> willstop st' = (sum_list (signals st') < sum_list (signals st))
            \<and> (willstop st' \<longrightarrow>
                treat w b page' item' st' = Inl (KeyboardInterrupt, st'))"
    if w: "\<not> willstop st" and s: "sum_list (signals st) \<le> 1"
  proof -
    have c: "calm st" using w s by (simp add: calm_def)
    have c0: "calm (st\<lparr>signals := []\<rparr>)" and w0: "\<not> willstop (st\<lparr>signals := []\<rparr>)"
      using w by (simp_all add: calm_def)
    from treat_calm [OF w c, of w b page item] obtain st' where
      t: "treat w b page item st = Inr st'"
      and tc: "treat w b page item (core st) = Inr (core st')"
      and f: "follows st st'"
      by blast
    from treat_calm [OF w0 c0, of w b page item] obtain q where
      t0: "treat w b page item (st\<lparr>signals := []\<rparr>) = Inr q"
      and tc0: "treat w b page item (core st) = Inr (core q)"
      by auto
    from tc tc0 have e: "core st' = core q" by simp
    have "claims st' = claims q"
      using arg_cong [OF e, of claims] by simp
    moreover have "trace st' = trace q"
      using arg_cong [OF e, of trace] by simp
    moreover have "willstop st' = (sum_list (signals st') < sum_list (signals st))"
      using f w by (simp add: follows_def)
    moreover have "willstop st' \<longrightarrow>
        treat w b page' item' st' = Inl (KeyboardInterrupt, st')"
      by (simp add: treat_def)
    ultimately show ?thesis using t t0 by blast
  qed
  have entry: "treat w b page item st = Inl (KeyboardInterrupt, st)" if "willstop st"
    using that by (simp add: treat_def)
  have abort: "fields_loop w b page item (fv # fvs) st = Inl (KeyboardInterrupt, st\<lparr>signals := ns\<rparr>)
        \<and> templates_loop w b page item (tf # tfs) st =
            Inl (KeyboardInterrupt, st\<lparr>signals := ns\<rparr>)"
    if "willstop st" and "signals st = Suc n # ns"
    using deliver_abort [OF that] by simp
  have twice: "fields_loop w b page item (fv # fvs) st =
          Inl (KeyboardInterrupt,
            st\<lparr>signals := ns, willstop := True, stdout := stdout st @ [ctrl_c_text]\<rparr>)
        \<and> templates_loop w b page item (tf # tfs) st =
          Inl (KeyboardInterrupt,
            st\<lparr>signals := ns, willstop := True, stdout := stdout st @ [ctrl_c_text]\<rparr>)"
    if "\<not> willstop st" and "signals st = Suc (Suc n) # ns"
    using deliver_twice [OF that] by simp
  show ?thesis
    using entry graceful abort twice by blast
qed


theorem two_tier_cancellation_witness:
  "\<not> willstop (example_state\<lparr>signals := [0, 0, 1]\<rparr>)
   \<and> sum_list (signals (example_state\<lparr>signals := [0, 0, 1]\<rparr>)) \<le> 1
   \<and> treat example_env example_bot example_page example_item
         (example_state\<lparr>signals := [0, 0, 1]\<rparr>) =
       Inr (example_state\<lparr>willstop := True, stdout := [ctrl_c_text],
              claims := (\<lambda>i. {})(ItemPage ''Q1'' := {''P70''}), trace := example_trace\<rparr>)
   \<and> treat example_env example_bot example_page example_item example_state =
       Inr (example_state\<lparr>claims := (\<lambda>i. {})(ItemPage ''Q1'' := {''P70''}),
              trace := example_trace\<rparr>)
   \<and> treat example_env example_bot example_page example_item
         (example_state\<lparr>willstop := True, stdout := [ctrl_c_text],
              claims := (\<lambda>i. {})(ItemPage ''Q1'' := {''P70''}), trace := example_trace\<rparr>) =
       Inl (KeyboardInterrupt,
         example_state\<lparr>willstop := True, stdout := [ctrl_c_text],
              claims := (\<lambda>i. {})(ItemPage ''Q1'' := {''P70''}), trace := example_trace\<rparr>)
   \<and> fields_loop example_env example_bot example_page example_item
         [(''familie'', ''xyz-not-a-page'')] (example_state\<lparr>willstop := True, signals := [1]\<rparr>) =
       Inl (KeyboardInterrupt, example_state\<lparr>willstop := True\<rparr>)
   \<and> fields_loop example_env example_bot example_page example_item
         [(''familie'', ''xyz-not-a-page'')] (example_state\<lparr>signals := [2]\<rparr>) =
       Inl (KeyboardInterrupt, example_state\<lparr>willstop := True, stdout := [ctrl_c_text]\<rparr>)
   \<and> treat example_env example_bot example_page example_item
         (example_state\<lparr>signals := [0, 0, 2]\<rparr>) =
       Inl (KeyboardInterrupt,
          example_state\<lparr>willstop := True, stdout := [ctrl_c_text],
            claims := (\<lambda>i. {})(ItemPage ''Q1'' := {''P70''}), trace := take 11 example_trace\<rparr>)"
proof -
  have entry: "treat example_env example_bot example_page example_item
         (example_state\<lparr>willstop := True, stdout := [ctrl_c_text],
              claims := (\<lambda>i. {})(ItemPage ''Q1'' := {''P70''}), trace := example_trace\<rparr>) =
       Inl (KeyboardInterrupt,
         example_state\<lparr>willstop := True, stdout := [ctrl_c_text],
              claims := (\<lambda>i. {})(ItemPage ''Q1'' := {''P70''}), trace := example_trace\<rparr>)"
    using two_tier_cancellation [where st = "example_state\<lparr>willstop := True,
              stdout := [ctrl_c_text],
              claims := (\<lambda>i. {})(ItemPage ''Q1'' := {''P70''}), trace := example_trace\<rparr>"
            and w = example_env and b = example_bot and page = example_page
            and item = example_item]
    by simp
  have graceful: "\<not> willstop (example_state\<lparr>signals := [0, 0, 1]\<rparr>)
      \<and> sum_list (signals (example_state\<lparr>signals := [0, 0, 1]\<rparr>)) \<le> 1"
    by (simp add: example_state_def)
  have second: "fields_loop example_env example_bot example_page example_item
         [(''familie'', ''xyz-not-a-page'')] (example_state\<lparr>willstop := True, signals := [1]\<rparr>) =
       Inl (KeyboardInterrupt, example_state\<lparr>willstop := True\<rparr>)"
    using two_tier_cancellation [where st = "example_state\<lparr>willstop := True, signals := [1]\<rparr>"
            and w = example_env and b = example_bot and page = example_page
            and item = example_item and n = 0 and ns = "[]"
            and fv = "(''familie'', ''xyz-not-a-page'')" and fvs = "[]"]
    by (simp add: example_state_def)
  have twice: "fields_loop example_env example_bot example_page example_item
         [(''familie'', ''xyz-not-a-page'')] (example_state\<lparr>signals := [2]\<rparr>) =
       Inl (KeyboardInterrupt, example_state\<lparr>willstop := True, stdout := [ctrl_c_text]\<rparr>)"
    using two_tier_cancellation [where st = "example_state\<lparr>signals := [2]\<rparr>"
            and w = example_env and b = example_bot and page = example_page
            and item = example_item and n = 0 and ns = "[]"
            and fv = "(''familie'', ''xyz-not-a-page'')" and fvs = "[]"]
    by (simp add: example_state_def eval_nat_numeral)
  show ?thesis
    using graceful entry second twice run_interrupted run_quiet run_forced
      two_tier_cancellation [where st = "example_state\<lparr>signals := [0, 0, 1]\<rparr>"
            and w = example_env and b = example_bot and page = example_page
            and item = example_item]
    by simp
qed

end
